theory Spec2Isabelle
  imports Main
begin

section \<open>Python values as the mappers see them\<close>

text \<open>
  \<^verbatim>\<open>dal.py\<close> receives raw documents from the store and inspects them dynamically
  (\<^verbatim>\<open>not doc\<close>, \<^verbatim>\<open>doc.get\<close>, \<^verbatim>\<open>str\<close>, \<^verbatim>\<open>len\<close>, \<^verbatim>\<open>isinstance\<close>), so the
  model has one type of Python values. A dictionary is an association list in insertion
  order, read at the first binding of a key; \<open>PObjectId\<close> carries the bytes of a
  \<^verbatim>\<open>bson.ObjectId\<close> as lower-case hexadecimal digits, which is also its \<^verbatim>\<open>str\<close>; \<open>PUnprintable\<close> is an object whose
  \<^verbatim>\<open>__str__\<close> and \<^verbatim>\<open>__repr__\<close> raise (an id that cannot be stringified). It has
  no \<^verbatim>\<open>get\<close>, no length and is not iterable. A string is a sequence of code
  points, each a \<open>char\<close>, so the strings of the model are those whose code points are
  below 256. Floats are left out.
\<close>

datatype pyval =
    PNone
  | PBool bool
  | PInt int
  | PStr string
  | PObjectId string
  | PList "pyval list"
  | PDict "(string \<times> pyval) list"
  | PUnprintable

datatype error =
    AttributeError
  | TypeError
  | ValidationError
  | InvalidId
  | DuplicateKeyError
  | OperationFailure
  | ConnectionFailure

text \<open>Truthiness, as \<^verbatim>\<open>not x\<close>, \<^verbatim>\<open>x or y\<close>, \<^verbatim>\<open>if x\<close> and \<^verbatim>\<open>bool(x)\<close> compute it.\<close>

fun py_truthy :: "pyval \<Rightarrow> bool" where
  "py_truthy PNone = False"
| "py_truthy (PBool b) = b"
| "py_truthy (PInt i) = (i \<noteq> 0)"
| "py_truthy (PStr s) = (s \<noteq> [])"
| "py_truthy (PObjectId h) = True"
| "py_truthy (PList xs) = (xs \<noteq> [])"
| "py_truthy (PDict kvs) = (kvs \<noteq> [])"
| "py_truthy PUnprintable = True"

fun isinstance_dict :: "pyval \<Rightarrow> bool" where
  "isinstance_dict (PDict kvs) = True"
| "isinstance_dict v = False"

text \<open>\<^verbatim>\<open>d.get(k, default)\<close> on a dictionary.\<close>

definition dict_get :: "(string \<times> pyval) list \<Rightarrow> string \<Rightarrow> pyval \<Rightarrow> pyval" where
  "dict_get d k dflt = (case map_of d k of Some v \<Rightarrow> v | None \<Rightarrow> dflt)"

text \<open>\<^verbatim>\<open>len(x)\<close>: \<open>None\<close> is the \<^verbatim>\<open>TypeError\<close> of an object without a length.\<close>

fun py_len :: "pyval \<Rightarrow> int option" where
  "py_len (PList xs) = Some (int (length xs))"
| "py_len (PDict kvs) = Some (int (length kvs))"
| "py_len (PStr s) = Some (int (length s))"
| "py_len v = None"

text \<open>
  \<^verbatim>\<open>for item in x\<close>: a list yields its elements, a dictionary its keys, a string its
  characters; \<open>None\<close> is the \<^verbatim>\<open>TypeError\<close> of an object that is not iterable.
\<close>

fun py_iter :: "pyval \<Rightarrow> pyval list option" where
  "py_iter (PList xs) = Some xs"
| "py_iter (PDict kvs) = Some (map (\<lambda>kv. PStr (fst kv)) kvs)"
| "py_iter (PStr s) = Some (map (\<lambda>c. PStr [c]) s)"
| "py_iter v = None"

subsection \<open>\<^verbatim>\<open>str\<close> and \<^verbatim>\<open>repr\<close>\<close>

definition digit_char :: "nat \<Rightarrow> char" where
  "digit_char n = ''0123456789'' ! n"

fun nat_digits :: "nat \<Rightarrow> string" where
  "nat_digits n = (if n < 10 then [digit_char n] else nat_digits (n div 10) @ [digit_char (n mod 10)])"

definition int_str :: "int \<Rightarrow> string" where
  "int_str i = (if i < 0 then CHR ''-'' # nat_digits (nat (- i)) else nat_digits (nat i))"

definition hex_char :: "nat \<Rightarrow> char" where
  "hex_char n = ''0123456789abcdef'' ! n"

text \<open>
  \<^verbatim>\<open>repr\<close> of a string: double quotes when the string has a single quote and no
  double quote, single quotes otherwise; the quote in use and the backslash are escaped,
  tab, line feed and carriage return have their short escapes, and every other code point
  that is not printable is written \<^verbatim>\<open>\xhh\<close>. Below 256 the code points that are not
  printable are the controls 0 to 31 and 127 to 159, the no-break space 160 and the soft
  hyphen 173.
\<close>

definition printable :: "char \<Rightarrow> bool" where
  "printable c =
     ((32::nat) \<le> of_char c \<and> of_char c < (127::nat)
      \<or> (160::nat) < of_char c \<and> of_char c \<noteq> (173::nat))"

definition repr_quote :: "string \<Rightarrow> char" where
  "repr_quote s = (if CHR 0x27 \<in> set s \<and> CHR 0x22 \<notin> set s then CHR 0x22 else CHR 0x27)"

definition repr_char :: "char \<Rightarrow> char \<Rightarrow> string" where
  "repr_char q c =
     (if c = q \<or> c = CHR 0x5C then [CHR 0x5C, c]
      else if c = CHR 0x09 then [CHR 0x5C, CHR ''t'']
      else if c = CHR 0x0A then [CHR 0x5C, CHR ''n'']
      else if c = CHR 0x0D then [CHR 0x5C, CHR ''r'']
      else if printable c then [c]
      else [CHR 0x5C, CHR ''x'', hex_char (of_char c div 16), hex_char (of_char c mod 16)])"

definition repr_str :: "string \<Rightarrow> string" where
  "repr_str s = (let q = repr_quote s in q # concat (map (repr_char q) s) @ [q])"

fun join_str :: "string \<Rightarrow> string list \<Rightarrow> string" where
  "join_str sep [] = []"
| "join_str sep [x] = x"
| "join_str sep (x # y # ys) = x @ sep @ join_str sep (y # ys)"

text \<open>\<open>None\<close> when one of the parts raised.\<close>

fun all_some :: "'a option list \<Rightarrow> 'a list option" where
  "all_some [] = Some []"
| "all_some (None # xs) = None"
| "all_some (Some x # xs) = (case all_some xs of None \<Rightarrow> None | Some ys \<Rightarrow> Some (x # ys))"

fun py_repr :: "pyval \<Rightarrow> string option" where
  "py_repr PNone = Some ''None''"
| "py_repr (PBool b) = Some (if b then ''True'' else ''False'')"
| "py_repr (PInt i) = Some (int_str i)"
| "py_repr (PStr s) = Some (repr_str s)"
| "py_repr (PObjectId h) = Some (''ObjectId('' @ [CHR 0x27] @ h @ [CHR 0x27] @ '')'')"
| "py_repr (PList xs) =
     (case all_some (map py_repr xs) of
        None \<Rightarrow> None
      | Some rs \<Rightarrow> Some (''['' @ join_str '', '' rs @ '']''))"
| "py_repr (PDict kvs) =
     (case all_some (map (\<lambda>kv. case py_repr (snd kv) of
                                   None \<Rightarrow> None
                                 | Some r \<Rightarrow> Some (repr_str (fst kv) @ '': '' @ r)) kvs) of
        None \<Rightarrow> None
      | Some rs \<Rightarrow> Some (''{'' @ join_str '', '' rs @ ''}''))"
| "py_repr PUnprintable = None"

text \<open>\<^verbatim>\<open>str(x)\<close>; \<open>None\<close> is an exception raised by the object's own conversion.\<close>

fun py_str :: "pyval \<Rightarrow> string option" where
  "py_str (PStr s) = Some s"
| "py_str (PObjectId h) = Some h"
| "py_str v = py_repr v"

section \<open>The read models and the document mapper\<close>

text \<open>
  The three \<^verbatim>\<open>pydantic\<close> models. Constructing one validates its fields: a field
  declared \<^verbatim>\<open>str\<close> accepts a string and raises \<^verbatim>\<open>ValidationError\<close> on \<^verbatim>\<open>None\<close>, a
  list or a dictionary in every version of the library; on a number or a boolean the
  current major version raises as well, and that is what \<open>validate_str\<close> does. The
  other fields are given values of their declared type by the mappers (\<open>None\<close> or a
  string for the id, the result of \<^verbatim>\<open>len\<close>, the result of \<^verbatim>\<open>bool\<close>).
\<close>

record ListSummary =
  ls_id :: "string option"
  ls_name :: string
  ls_item_count :: int

record ToDoListItem =
  it_id :: "string option"
  it_label :: string
  it_checked :: bool

record ToDoList =
  tl_id :: "string option"
  tl_name :: string
  tl_items :: "ToDoListItem list"

fun validate_str :: "pyval \<Rightarrow> error + string" where
  "validate_str (PStr s) = Inr s"
| "validate_str v = Inl ValidationError"

text \<open>
  \<^verbatim>\<open>try: id_str = str(raw_id) if raw_id is not None else None\<close>
  \<^verbatim>\<open>except Exception: id_str = None\<close>
\<close>

definition id_str_of :: "pyval \<Rightarrow> string option" where
  "id_str_of raw_id = (if raw_id \<noteq> PNone then py_str raw_id else None)"

text \<open>\<^verbatim>\<open>doc.get("_id") or doc.get("id")\<close>\<close>

definition doc_raw_id :: "(string \<times> pyval) list \<Rightarrow> pyval" where
  "doc_raw_id d =
     (if py_truthy (dict_get d ''_id'' PNone) then dict_get d ''_id'' PNone
      else dict_get d ''id'' PNone)"

text \<open>\<^verbatim>\<open>item.get("id") if item.get("id") is not None else item.get("_id")\<close>\<close>

definition item_raw_id :: "(string \<times> pyval) list \<Rightarrow> pyval" where
  "item_raw_id d =
     (if dict_get d ''id'' PNone \<noteq> PNone then dict_get d ''id'' PNone
      else dict_get d ''_id'' PNone)"

text \<open>
  \<^verbatim>\<open>count = len(items)\<close> under \<^verbatim>\<open>try\<close>, \<^verbatim>\<open>count = 0\<close> in the handler.
\<close>

definition items_count :: "pyval \<Rightarrow> int" where
  "items_count items = (case py_len items of Some n \<Rightarrow> n | None \<Rightarrow> 0)"

text \<open>
  \<^verbatim>\<open>ListSummary.from_doc\<close>. A truthy value that is not a dictionary has no \<^verbatim>\<open>get\<close>:
  the first \<^verbatim>\<open>doc.get\<close> raises \<^verbatim>\<open>AttributeError\<close>, outside every \<^verbatim>\<open>try\<close>.
\<close>

definition ListSummary_from_doc :: "pyval \<Rightarrow> error + ListSummary" where
  "ListSummary_from_doc doc =
     (if \<not> py_truthy doc then Inr \<lparr>ls_id = None, ls_name = [], ls_item_count = 0\<rparr>
      else case doc of
        PDict d \<Rightarrow>
          (let id_str = id_str_of (doc_raw_id d);
               count = items_count (dict_get d ''items'' (PList []))
           in case validate_str (dict_get d ''name'' (PStr [])) of
                Inl e \<Rightarrow> Inl e
              | Inr n \<Rightarrow> Inr \<lparr>ls_id = id_str, ls_name = n, ls_item_count = count\<rparr>)
      | _ \<Rightarrow> Inl AttributeError)"

text \<open>\<^verbatim>\<open>ToDoListItem.from_doc\<close>\<close>

definition ToDoListItem_from_doc :: "pyval \<Rightarrow> error + ToDoListItem" where
  "ToDoListItem_from_doc item =
     (if \<not> py_truthy item \<or> \<not> isinstance_dict item
      then Inr \<lparr>it_id = None, it_label = [], it_checked = False\<rparr>
      else case item of
        PDict d \<Rightarrow>
          (let id_str = id_str_of (item_raw_id d)
           in case validate_str (dict_get d ''label'' (PStr [])) of
                Inl e \<Rightarrow> Inl e
              | Inr l \<Rightarrow>
                  Inr \<lparr>it_id = id_str, it_label = l,
                       it_checked = py_truthy (dict_get d ''checked'' (PBool False))\<rparr>)
      | _ \<Rightarrow> Inl AttributeError)"

text \<open>
  The loop of \<^verbatim>\<open>ToDoList.from_doc\<close>: an item whose mapping raises is logged and
  skipped, the others are appended in order.
\<close>

fun map_items :: "pyval list \<Rightarrow> ToDoListItem list" where
  "map_items [] = []"
| "map_items (x # xs) =
     (case ToDoListItem_from_doc x of
        Inl e \<Rightarrow> map_items xs
      | Inr it \<Rightarrow> it # map_items xs)"

text \<open>
  \<^verbatim>\<open>ToDoList.from_doc\<close>; \<open>Inr None\<close> is the \<^verbatim>\<open>return None\<close> of its first branch.
  \<^verbatim>\<open>items_docs = doc.get("items", []) or []\<close>; the \<^verbatim>\<open>for\<close> statement is outside the
  \<^verbatim>\<open>try\<close>, so a truthy value that is not iterable raises \<^verbatim>\<open>TypeError\<close>.
\<close>

definition ToDoList_from_doc :: "pyval \<Rightarrow> error + ToDoList option" where
  "ToDoList_from_doc doc =
     (if \<not> py_truthy doc then Inr None
      else case doc of
        PDict d \<Rightarrow>
          (let id_str = id_str_of (doc_raw_id d);
               items_docs = (if py_truthy (dict_get d ''items'' (PList []))
                             then dict_get d ''items'' (PList []) else PList [])
           in case py_iter items_docs of
                None \<Rightarrow> Inl TypeError
              | Some its \<Rightarrow>
                  (case validate_str (dict_get d ''name'' (PStr [])) of
                     Inl e \<Rightarrow> Inl e
                   | Inr n \<Rightarrow>
                       Inr (Some \<lparr>tl_id = id_str, tl_name = n, tl_items = map_items its\<rparr>)))
      | _ \<Rightarrow> Inl AttributeError)"

section \<open>The store\<close>

text \<open>
  The collection is the sequence of its documents, each a dictionary. The DAL sends it
  two queries, \<^verbatim>\<open>{"_id": v}\<close> and \<^verbatim>\<open>{"_id": v, "items.id": item_id}\<close>, and three
  updates, \<^verbatim>\<open>$push\<close> of a new item, \<^verbatim>\<open>$set\<close> of \<^verbatim>\<open>items.$.checked\<close> and \<^verbatim>\<open>$pull\<close>
  of the items with a given id. The functions of this section are what the store does
  with a call that reaches it; a call that raises instead is a \<open>round_trip\<close> of the
  data access layer below.
\<close>

type_synonym document = "(string \<times> pyval) list"

type_synonym collection = "document list"

datatype query =
    ById pyval
  | ByIdAndItem pyval string

datatype update =
    Push pyval
  | SetChecked bool
  | Pull string

text \<open>
  Equality on a field: the field holds the value, or holds an array with the value among
  its elements. A missing field matches no string.
\<close>

fun field_matches :: "pyval option \<Rightarrow> pyval \<Rightarrow> bool" where
  "field_matches None t = False"
| "field_matches (Some (PList ys)) t = (PList ys = t \<or> t \<in> set ys)"
| "field_matches (Some v) t = (v = t)"

text \<open>The condition \<^verbatim>\<open>{"id": item_id}\<close> on one element of \<^verbatim>\<open>items\<close>.\<close>

fun elem_matches :: "string \<Rightarrow> pyval \<Rightarrow> bool" where
  "elem_matches item_id (PDict e) = field_matches (map_of e ''id'') (PStr item_id)"
| "elem_matches item_id v = False"

text \<open>
  The path \<^verbatim>\<open>items.id\<close>: through the elements of an array of documents, or into an
  embedded document.
\<close>

definition items_id_matches :: "document \<Rightarrow> string \<Rightarrow> bool" where
  "items_id_matches d item_id =
     (case map_of d ''items'' of
        Some (PList xs) \<Rightarrow> list_ex (elem_matches item_id) xs
      | Some (PDict e) \<Rightarrow> field_matches (map_of e ''id'') (PStr item_id)
      | _ \<Rightarrow> False)"

text \<open>The primary key of a stored document is never an array, so it matches by equality.\<close>

fun matches :: "document \<Rightarrow> query \<Rightarrow> bool" where
  "matches d (ById v) = (map_of d ''_id'' = Some v)"
| "matches d (ByIdAndItem v item_id) = (map_of d ''_id'' = Some v \<and> items_id_matches d item_id)"

text \<open>Assignment to a key: in place when the key is there, at the end otherwise.\<close>

fun dict_set :: "string \<Rightarrow> pyval \<Rightarrow> document \<Rightarrow> document" where
  "dict_set k v [] = [(k, v)]"
| "dict_set k v (kv # kvs) = (if fst kv = k then (k, v) # kvs else kv # dict_set k v kvs)"

text \<open>The positional \<^verbatim>\<open>$\<close>: the first element of the array that the query matched.\<close>

fun set_first_checked :: "string \<Rightarrow> bool \<Rightarrow> pyval list \<Rightarrow> pyval list" where
  "set_first_checked item_id b [] = []"
| "set_first_checked item_id b (x # xs) =
     (if elem_matches item_id x
      then (case x of PDict e \<Rightarrow> PDict (dict_set ''checked'' (PBool b) e) | _ \<Rightarrow> x) # xs
      else x # set_first_checked item_id b xs)"

text \<open>
  One update on the matched document. The store refuses (a write error, raised to the
  caller as an exception) \<^verbatim>\<open>$push\<close> and \<^verbatim>\<open>$pull\<close> on a field that is not an array, and
  the positional operator when the query matched no array element.
\<close>

fun apply_update :: "document \<Rightarrow> query \<Rightarrow> update \<Rightarrow> error + document" where
  "apply_update d q (Push item) =
     (case map_of d ''items'' of
        None \<Rightarrow> Inr (dict_set ''items'' (PList [item]) d)
      | Some (PList xs) \<Rightarrow> Inr (dict_set ''items'' (PList (xs @ [item])) d)
      | Some v \<Rightarrow> Inl OperationFailure)"
| "apply_update d (ByIdAndItem v item_id) (SetChecked b) =
     (case map_of d ''items'' of
        Some (PList xs) \<Rightarrow> Inr (dict_set ''items'' (PList (set_first_checked item_id b xs)) d)
      | _ \<Rightarrow> Inl OperationFailure)"
| "apply_update d (ById v) (SetChecked b) = Inl OperationFailure"
| "apply_update d q (Pull item_id) =
     (case map_of d ''items'' of
        None \<Rightarrow> Inr d
      | Some (PList xs) \<Rightarrow>
          Inr (dict_set ''items'' (PList (filter (\<lambda>x. \<not> elem_matches item_id x) xs)) d)
      | Some v \<Rightarrow> Inl OperationFailure)"

definition find_one :: "collection \<Rightarrow> query \<Rightarrow> document option" where
  "find_one c q = find (\<lambda>d. matches d q) c"

text \<open>\<^verbatim>\<open>delete_one\<close>: the collection without the first match, and \<^verbatim>\<open>deleted_count\<close>.\<close>

fun delete_one :: "collection \<Rightarrow> query \<Rightarrow> collection \<times> nat" where
  "delete_one [] q = ([], 0)"
| "delete_one (d # ds) q =
     (if matches d q then (ds, 1)
      else (d # fst (delete_one ds q), snd (delete_one ds q)))"

text \<open>
  \<^verbatim>\<open>find_one_and_update\<close> with \<^verbatim>\<open>ReturnDocument.AFTER\<close>: the first match is updated in
  place and returned as it is after the update; no match returns \<^verbatim>\<open>None\<close>.
\<close>

fun find_one_and_update ::
  "collection \<Rightarrow> query \<Rightarrow> update \<Rightarrow> collection \<times> (error + document option)" where
  "find_one_and_update [] q u = ([], Inr None)"
| "find_one_and_update (d # ds) q u =
     (if matches d q
      then (case apply_update d q u of
              Inl e \<Rightarrow> (d # ds, Inl e)
            | Inr d' \<Rightarrow> (d' # ds, Inr (Some d')))
      else (d # fst (find_one_and_update ds q u), snd (find_one_and_update ds q u)))"

text \<open>
  \<^verbatim>\<open>insert_one\<close>: the driver draws the new primary key (the argument \<open>oid\<close>) and the
  store refuses a key it already holds.
\<close>

definition insert_one :: "collection \<Rightarrow> string \<Rightarrow> document \<Rightarrow> collection \<times> (error + string)" where
  "insert_one c oid d =
     (if find_one c (ById (PObjectId oid)) \<noteq> None then (c, Inl DuplicateKeyError)
      else (c @ [(''_id'', PObjectId oid) # d], Inr oid))"

section \<open>List identities\<close>

text \<open>
  An identity reaches the DAL as a string or as an \<^verbatim>\<open>ObjectId\<close>
  (\<^verbatim>\<open>id: str | ObjectId\<close>). \<^verbatim>\<open>ObjectId(x)\<close> copies an \<^verbatim>\<open>ObjectId\<close>, decodes a string of
  24 characters with \<^verbatim>\<open>bytes.fromhex\<close> and raises \<^verbatim>\<open>InvalidId\<close> on a string of
  another length or one that does not decode.
\<close>

datatype ident =
    IdStr string
  | IdOid string

fun ident_val :: "ident \<Rightarrow> pyval" where
  "ident_val (IdStr s) = PStr s"
| "ident_val (IdOid h) = PObjectId h"

fun ident_str :: "ident \<Rightarrow> string" where
  "ident_str (IdStr s) = s"
| "ident_str (IdOid h) = h"

fun isinstance_str :: "ident \<Rightarrow> bool" where
  "isinstance_str (IdStr s) = True"
| "isinstance_str (IdOid h) = False"

definition is_hex_digit :: "char \<Rightarrow> bool" where
  "is_hex_digit c = (c \<in> set ''0123456789abcdefABCDEF'')"

text \<open>The lower-case form of a hexadecimal digit.\<close>

definition lower_char :: "char \<Rightarrow> char" where
  "lower_char c =
     (if c = CHR ''A'' then CHR ''a'' else if c = CHR ''B'' then CHR ''b''
      else if c = CHR ''C'' then CHR ''c'' else if c = CHR ''D'' then CHR ''d''
      else if c = CHR ''E'' then CHR ''e'' else if c = CHR ''F'' then CHR ''f'' else c)"

definition is_space_char :: "char \<Rightarrow> bool" where
  "is_space_char c = (c \<in> set [CHR 0x20, CHR 0x09, CHR 0x0A, CHR 0x0B, CHR 0x0C, CHR 0x0D])"

text \<open>
  \<^verbatim>\<open>bytes.fromhex\<close>, with each decoded byte written back as two lower-case digits:
  pairs of hexadecimal digits, ASCII whitespace between the pairs skipped; \<open>None\<close> is
  its \<^verbatim>\<open>ValueError\<close>.
\<close>

fun fromhex :: "string \<Rightarrow> string option" where
  "fromhex [] = Some []"
| "fromhex [c] = (if is_space_char c then Some [] else None)"
| "fromhex (c # c' # cs) =
     (if is_space_char c then fromhex (c' # cs)
      else if is_hex_digit c \<and> is_hex_digit c'
        then (case fromhex cs of
                None \<Rightarrow> None
              | Some r \<Rightarrow> Some (lower_char c # lower_char c' # r))
      else None)"

fun ObjectId :: "ident \<Rightarrow> error + string" where
  "ObjectId (IdOid h) = Inr h"
| "ObjectId (IdStr s) =
     (if length s = 24
      then (case fromhex s of None \<Rightarrow> Inl InvalidId | Some h \<Rightarrow> Inr h)
      else Inl InvalidId)"

text \<open>\<^verbatim>\<open>ObjectId.is_valid\<close>: whether the constructor accepts the value.\<close>

definition ObjectId_is_valid :: "ident \<Rightarrow> bool" where
  "ObjectId_is_valid x = (case ObjectId x of Inr h \<Rightarrow> True | Inl e \<Rightarrow> False)"

text \<open>
  The two-stage resolution in the words of the specification: try the native encoding,
  and only when the decode fails match the identity as it is.
\<close>

definition resolve_identity :: "ident \<Rightarrow> pyval" where
  "resolve_identity x = (case ObjectId x of Inr h \<Rightarrow> PObjectId h | Inl e \<Rightarrow> ident_val x)"

text \<open>
  A call to the store is a round trip: the store answers it, or the call raises (the
  connection is lost, the server does not answer in time). A call that raises leaves the
  collection as it was.
\<close>

datatype round_trip = Answers | Raises

definition store_call :: "round_trip \<Rightarrow> 'a \<Rightarrow> error + 'a" where
  "store_call rt r = (case rt of Answers \<Rightarrow> Inr r | Raises \<Rightarrow> Inl ConnectionFailure)"

text \<open>
  The value under \<^verbatim>\<open>"_id"\<close> in the filter of each operation, as the source computes it.
  \<^verbatim>\<open>get_todo_list\<close> and \<^verbatim>\<open>delete_todo_list\<close>:
  \<^verbatim>\<open>try: doc = await find_one({"_id": ObjectId(id)})\<close>
  \<^verbatim>\<open>except Exception: doc = await find_one({"_id": id})\<close>
  The \<^verbatim>\<open>try\<close> holds the constructor and the call to the store, so the handler runs
  when either of them raises. \<open>first\<close> is the round trip of the call in the \<^verbatim>\<open>try\<close>;
  the filter is that of the call whose answer the operation goes on with.
\<close>

definition get_todo_list_filter :: "round_trip \<Rightarrow> ident \<Rightarrow> pyval" where
  "get_todo_list_filter first x =
     (case ObjectId x of
        Inl e \<Rightarrow> ident_val x
      | Inr h \<Rightarrow> (case first of Answers \<Rightarrow> PObjectId h | Raises \<Rightarrow> ident_val x))"

definition delete_todo_list_filter :: "round_trip \<Rightarrow> ident \<Rightarrow> pyval" where
  "delete_todo_list_filter first x =
     (case ObjectId x of
        Inl e \<Rightarrow> ident_val x
      | Inr h \<Rightarrow> (case first of Answers \<Rightarrow> PObjectId h | Raises \<Rightarrow> ident_val x))"

text \<open>
  \<^verbatim>\<open>delete_item\<close>, where the \<^verbatim>\<open>try\<close> holds the constructor alone:
  \<^verbatim>\<open>try: filter_doc = {"_id": ObjectId(doc_id)}\<close>
  \<^verbatim>\<open>except Exception: filter_doc = {"_id": doc_id}\<close>
\<close>

definition delete_item_filter :: "ident \<Rightarrow> pyval" where
  "delete_item_filter x = (case ObjectId x of Inl e \<Rightarrow> ident_val x | Inr h \<Rightarrow> PObjectId h)"

text \<open>
  \<^verbatim>\<open>create_item\<close>:
  \<^verbatim>\<open>ObjectId(id) if not isinstance(id, str) or ObjectId.is_valid(id) else id\<close>,
  with no handler around the constructor.
\<close>

definition create_item_filter :: "ident \<Rightarrow> error + pyval" where
  "create_item_filter x =
     (if \<not> isinstance_str x \<or> ObjectId_is_valid x
      then (case ObjectId x of Inl e \<Rightarrow> Inl e | Inr h \<Rightarrow> Inr (PObjectId h))
      else Inr (ident_val x))"

text \<open>
  \<^verbatim>\<open>set_checked_state\<close>:
  \<^verbatim>\<open>{"_id": ObjectId(doc_id)} if ObjectId.is_valid(str(doc_id)) else {"_id": doc_id}\<close>
\<close>

definition set_checked_state_filter :: "ident \<Rightarrow> error + pyval" where
  "set_checked_state_filter x =
     (if ObjectId_is_valid (IdStr (ident_str x))
      then (case ObjectId x of Inl e \<Rightarrow> Inl e | Inr h \<Rightarrow> Inr (PObjectId h))
      else Inr (ident_val x))"

section \<open>The data access layer\<close>

text \<open>
  Each operation takes the collection and returns it as the operation leaves it, with
  the value returned to the caller or the exception raised. In \<^verbatim>\<open>get_todo_list\<close> and
  \<^verbatim>\<open>delete_todo_list\<close> an exception of the store changes what the operation does next,
  so these two take the round trips of their calls, \<open>first\<close> for the call in the
  \<^verbatim>\<open>try\<close> and \<open>second\<close> for the call in the handler. In the operations on items an
  exception of the store goes to the caller as it is, and they are given for a store
  that answers.
\<close>

text \<open>\<^verbatim>\<open>if result: return ToDoList.from_doc(result)\<close>, \<^verbatim>\<open>return None\<close> otherwise.\<close>

definition map_result :: "document option \<Rightarrow> error + ToDoList option" where
  "map_result r =
     (case r of
        None \<Rightarrow> Inr None
      | Some d \<Rightarrow> if py_truthy (PDict d) then ToDoList_from_doc (PDict d) else Inr None)"

definition create_todo_list :: "collection \<Rightarrow> string \<Rightarrow> string \<Rightarrow> collection \<times> (error + string)" where
  "create_todo_list c name oid = insert_one c oid [(''name'', PStr name), (''items'', PList [])]"

definition get_todo_list_run ::
  "round_trip \<Rightarrow> round_trip \<Rightarrow> collection \<Rightarrow> ident \<Rightarrow> error + ToDoList option" where
  "get_todo_list_run first second c x =
     (case (case ObjectId x of
              Inl e \<Rightarrow> Inl e
            | Inr h \<Rightarrow> store_call first (find_one c (ById (PObjectId h)))) of
        Inr doc \<Rightarrow> map_result doc
      | Inl e \<Rightarrow>
          (case store_call second (find_one c (ById (ident_val x))) of
             Inl e' \<Rightarrow> Inl e'
           | Inr doc \<Rightarrow> map_result doc))"

text \<open>\<^verbatim>\<open>get_todo_list\<close> on a store that answers.\<close>

definition get_todo_list :: "collection \<Rightarrow> ident \<Rightarrow> error + ToDoList option" where
  "get_todo_list c x = get_todo_list_run Answers Answers c x"

text \<open>\<^verbatim>\<open>return response.deleted_count == 1\<close>\<close>

definition deleted :: "collection \<times> nat \<Rightarrow> collection \<times> (error + bool)" where
  "deleted response = (fst response, Inr (snd response = 1))"

definition delete_todo_list_run ::
  "round_trip \<Rightarrow> round_trip \<Rightarrow> collection \<Rightarrow> ident \<Rightarrow> collection \<times> (error + bool)" where
  "delete_todo_list_run first second c x =
     (case (case ObjectId x of
              Inl e \<Rightarrow> Inl e
            | Inr h \<Rightarrow> store_call first (delete_one c (ById (PObjectId h)))) of
        Inr response \<Rightarrow> deleted response
      | Inl e \<Rightarrow>
          (case store_call second (delete_one c (ById (ident_val x))) of
             Inl e' \<Rightarrow> (c, Inl e')
           | Inr response \<Rightarrow> deleted response))"

text \<open>
  \<^verbatim>\<open>delete_todo_list\<close> on a store that answers: the collection it leaves and the
  boolean it returns.
\<close>

definition delete_todo_list :: "collection \<Rightarrow> ident \<Rightarrow> collection \<times> bool" where
  "delete_todo_list c x =
     (fst (delete_todo_list_run Answers Answers c x),
      snd (delete_todo_list_run Answers Answers c x) = Inr True)"

text \<open>The sub-document that \<^verbatim>\<open>create_item\<close> pushes; \<open>item_id\<close> is \<^verbatim>\<open>uuid4().hex\<close>.\<close>

definition new_item :: "string \<Rightarrow> string \<Rightarrow> pyval" where
  "new_item item_id label =
     PDict [(''id'', PStr item_id), (''label'', PStr label), (''checked'', PBool False)]"

definition run_update ::
  "collection \<Rightarrow> query \<Rightarrow> update \<Rightarrow> collection \<times> (error + ToDoList option)" where
  "run_update c q u =
     (fst (find_one_and_update c q u),
      case snd (find_one_and_update c q u) of
        Inl e \<Rightarrow> Inl e
      | Inr r \<Rightarrow> map_result r)"

text \<open>
  \<^verbatim>\<open>create_item\<close>. The identifier drawn by \<^verbatim>\<open>uuid4\<close> is an argument: the function
  itself is deterministic in it.
\<close>

definition create_item ::
  "collection \<Rightarrow> ident \<Rightarrow> string \<Rightarrow> string \<Rightarrow> collection \<times> (error + ToDoList option)" where
  "create_item c x label item_id =
     (case create_item_filter x of
        Inl e \<Rightarrow> (c, Inl e)
      | Inr v \<Rightarrow> run_update c (ById v) (Push (new_item item_id label)))"


definition delete_item ::
  "collection \<Rightarrow> ident \<Rightarrow> string \<Rightarrow> collection \<times> (error + ToDoList option)" where
  "delete_item c x item_id = run_update c (ById (delete_item_filter x)) (Pull item_id)"

section \<open>Notions used to state the properties\<close>

text \<open>
  What \<^verbatim>\<open>ToDoList.from_doc\<close> returns for a non-empty document \<open>d\<close> whose \<^verbatim>\<open>items\<close>
  array is \<open>ys\<close>: the id and the name come from \<open>d\<close>, the items from \<open>ys\<close>.
\<close>

definition list_of_doc :: "document \<Rightarrow> pyval list \<Rightarrow> error + ToDoList option" where
  "list_of_doc d ys =
     (case validate_str (dict_get d ''name'' (PStr [])) of
        Inl e \<Rightarrow> Inl e
      | Inr n \<Rightarrow>
          Inr (Some \<lparr>tl_id = id_str_of (doc_raw_id d), tl_name = n, tl_items = map_items ys\<rparr>))"


text \<open>On the read model: the first item with the given id gets the given checked flag.\<close>

fun check_first :: "string \<Rightarrow> bool \<Rightarrow> ToDoListItem list \<Rightarrow> ToDoListItem list" where
  "check_first item_id b [] = []"
| "check_first item_id b (it # its) =
     (if it_id it = Some item_id then it\<lparr>it_checked := b\<rparr> # its
      else it # check_first item_id b its)"

text \<open>The store keeps the primary key unique within the collection.\<close>

definition unique_ids :: "collection \<Rightarrow> bool" where
  "unique_ids c = distinct (map (\<lambda>d. map_of d ''_id'') c)"






section \<open>Dictionaries and the mapper\<close>

lemma map_of_dict_set:
  "map_of (dict_set k v d) k' = (if k' = k then Some v else map_of d k')"
  by (induction d) auto

lemma dict_get_dict_set:
  "dict_get (dict_set k v d) k' dflt = (if k' = k then v else dict_get d k' dflt)"
  by (simp add: dict_get_def map_of_dict_set)

lemma dict_set_same: "map_of d k = Some v \<Longrightarrow> dict_set k v d = d"
  by (induction d) (auto split: if_splits)

lemma map_of_filter_key:
  "map_of (filter (\<lambda>kv. fst kv \<noteq> k) d) k' = (if k' = k then None else map_of d k')"
  by (induction d) auto

lemma dict_get_filter_other:
  "k' \<noteq> k \<Longrightarrow> dict_get (filter (\<lambda>kv. fst kv \<noteq> k) d) k' dflt = dict_get d k' dflt"
  by (simp add: dict_get_def map_of_filter_key)

lemma dict_get_filter_same:
  "dict_get (filter (\<lambda>kv. fst kv \<noteq> k) d) k dflt = dflt"
  by (simp add: dict_get_def map_of_filter_key)

lemma dict_get_empty_filter:
  "filter (\<lambda>kv. fst kv \<noteq> k) d = [] \<Longrightarrow> k' \<noteq> k \<Longrightarrow> dict_get d k' dflt = dflt"
  using dict_get_filter_other[of k' k d dflt] by (simp add: dict_get_def)

lemma doc_raw_id_dict_set_items:
  "doc_raw_id (dict_set ''items'' v d) = doc_raw_id d"
  by (simp add: doc_raw_id_def dict_get_dict_set)

lemma map_items_append: "map_items (xs @ ys) = map_items xs @ map_items ys"
  by (induction xs) (auto split: sum.splits)

lemma map_items_new_item:
  "map_items [new_item item_id label]
     = [\<lparr>it_id = Some item_id, it_label = label, it_checked = False\<rparr>]"
  by (simp add: new_item_def ToDoListItem_from_doc_def item_raw_id_def id_str_of_def dict_get_def)

lemma from_doc_items_list:
  "map_of d ''items'' = Some (PList ys) \<Longrightarrow> ToDoList_from_doc (PDict d) = list_of_doc d ys"
  by (cases d)
     (auto simp: ToDoList_from_doc_def list_of_doc_def dict_get_def Let_def split: sum.splits)

lemma from_doc_items_absent:
  "map_of d ''items'' = None \<Longrightarrow> d \<noteq> [] \<Longrightarrow> ToDoList_from_doc (PDict d) = list_of_doc d []"
  by (auto simp: ToDoList_from_doc_def list_of_doc_def dict_get_def Let_def split: sum.splits)

lemma list_of_doc_dict_set:
  "list_of_doc (dict_set ''items'' v d) ys = list_of_doc d ys"
  by (simp add: list_of_doc_def dict_get_dict_set doc_raw_id_dict_set_items split: sum.splits)

lemma list_of_doc_append:
  "list_of_doc d xs = Inr (Some l) \<Longrightarrow>
   list_of_doc d (xs @ ys) = Inr (Some (l\<lparr>tl_items := tl_items l @ map_items ys\<rparr>))"
  by (auto simp: list_of_doc_def map_items_append split: sum.splits)

lemma ToDoList_from_doc_None_iff:
  "(ToDoList_from_doc doc = Inr None) = (\<not> py_truthy doc)"
  by (cases doc) (auto simp: ToDoList_from_doc_def Let_def split: option.splits sum.splits)

text \<open>
  C1. The specification has the three mappers return on every input, never raising.
  They do raise. A stored list document whose name is null makes
  \<^verbatim>\<open>ListSummary.from_doc\<close> and \<^verbatim>\<open>ToDoList.from_doc\<close> raise the validation error of the
  model's constructor, and an item whose label is null does the same to
  \<^verbatim>\<open>ToDoListItem.from_doc\<close>; a truthy value that is not a dictionary makes the first
  two raise \<^verbatim>\<open>AttributeError\<close>, where \<^verbatim>\<open>ToDoListItem.from_doc\<close> has an
  \<^verbatim>\<open>isinstance\<close> guard; a truthy \<^verbatim>\<open>items\<close> field that is not iterable makes
  \<^verbatim>\<open>ToDoList.from_doc\<close> raise \<^verbatim>\<open>TypeError\<close>.
\<close>

theorem from_doc_raises:
  "ListSummary_from_doc
     (PDict [(''_id'', PObjectId ''65f0a1b2c3d4e5f6a7b8c9d0''), (''name'', PNone),
             (''items'', PList [])]) = Inl ValidationError
   \<and> ToDoList_from_doc
     (PDict [(''_id'', PObjectId ''65f0a1b2c3d4e5f6a7b8c9d0''), (''name'', PNone),
             (''items'', PList [])]) = Inl ValidationError
   \<and> ToDoListItem_from_doc
     (PDict [(''id'', PStr ''a1''), (''label'', PNone), (''checked'', PBool False)])
       = Inl ValidationError
   \<and> ListSummary_from_doc (PList [PInt 1]) = Inl AttributeError
   \<and> ToDoList_from_doc (PInt 5) = Inl AttributeError
   \<and> ToDoList_from_doc
     (PDict [(''_id'', PStr ''L1''), (''name'', PStr ''n''), (''items'', PInt 5)])
       = Inl TypeError"
  by (simp add: ListSummary_from_doc_def ToDoList_from_doc_def ToDoListItem_from_doc_def
        dict_get_def Let_def)

theorem from_doc_raises_witness:
  "ListSummary_from_doc
     (PDict [(''_id'', PObjectId ''65f0a1b2c3d4e5f6a7b8c9d0''), (''name'', PNone),
             (''items'', PList [])]) = Inl ValidationError
   \<and> ListSummary_from_doc (PList [PInt 1]) = Inl AttributeError"
  using from_doc_raises by simp

text \<open>
  C7. \<^verbatim>\<open>ListSummary.from_doc\<close> on an absent document returns the zero-value summary: no
  id (\<open>None\<close>), the empty name, count zero. On a document whose name the model accepts
  it returns a summary whose \<open>item_count\<close> is the length of the \<^verbatim>\<open>items\<close> field when
  the field is there and has a length, and zero otherwise; whenever it returns, the count
  of a list \<^verbatim>\<open>items\<close> is its length and the count of a missing \<^verbatim>\<open>items\<close> is zero.
\<close>

theorem ListSummary_item_count:
  "ListSummary_from_doc PNone = Inr \<lparr>ls_id = None, ls_name = [], ls_item_count = 0\<rparr>
   \<and> (\<forall>d n. validate_str (dict_get d ''name'' (PStr [])) = Inr n \<longrightarrow>
         (\<exists>r. ListSummary_from_doc (PDict d) = Inr r
            \<and> ls_item_count r =
                (case map_of d ''items'' of
                   None \<Rightarrow> 0
                 | Some v \<Rightarrow> (case py_len v of Some k \<Rightarrow> k | None \<Rightarrow> 0))))
   \<and> (\<forall>d xs r. map_of d ''items'' = Some (PList xs) \<longrightarrow>
         ListSummary_from_doc (PDict d) = Inr r \<longrightarrow> ls_item_count r = int (length xs))
   \<and> (\<forall>d r. map_of d ''items'' = None \<longrightarrow>
         ListSummary_from_doc (PDict d) = Inr r \<longrightarrow> ls_item_count r = 0)"
  by (auto simp: ListSummary_from_doc_def dict_get_def items_count_def Let_def
           split: option.splits sum.splits if_splits)

theorem ListSummary_item_count_witness:
  "ListSummary_from_doc
     (PDict [(''_id'', PStr ''L1''), (''name'', PStr ''Groceries''),
             (''items'', PList [PNone, PInt 3])])
     = Inr \<lparr>ls_id = Some ''L1'', ls_name = ''Groceries'', ls_item_count = 2\<rparr>
   \<and> ListSummary_from_doc (PDict [(''_id'', PStr ''L1''), (''name'', PStr ''Groceries'')])
     = Inr \<lparr>ls_id = Some ''L1'', ls_name = ''Groceries'', ls_item_count = 0\<rparr>
   \<and> ListSummary_from_doc
     (PDict [(''_id'', PStr ''L1''), (''name'', PStr ''Groceries''), (''items'', PNone)])
     = Inr \<lparr>ls_id = Some ''L1'', ls_name = ''Groceries'', ls_item_count = 0\<rparr>"
  using ListSummary_item_count
  by (simp add: ListSummary_from_doc_def dict_get_def items_count_def id_str_of_def
        doc_raw_id_def)

text \<open>
  C8, as the specification states it: \<^verbatim>\<open>ToDoList.from_doc\<close> returns the absent signal
  exactly when its input is absent. The test in the source is \<^verbatim>\<open>if not doc\<close>, so the
  empty document, which is present, gives the absent signal too.
\<close>

theorem ToDoList_from_doc_empty_document:
  "ToDoList_from_doc (PDict []) = Inr None \<and> PDict [] \<noteq> PNone"
  by (simp add: ToDoList_from_doc_def)

text \<open>
  C8, amended: \<^verbatim>\<open>ToDoList.from_doc\<close> returns the absent signal exactly when its input
  is falsy (absent, or empty). The other two mappers have no absent result (their result
  is a model or an exception): on an absent input, and on every falsy one, each returns
  its zero-value model.
\<close>

theorem from_doc_absent:
  "(\<forall>doc. (ToDoList_from_doc doc = Inr None) = (\<not> py_truthy doc))
   \<and> ListSummary_from_doc PNone = Inr \<lparr>ls_id = None, ls_name = [], ls_item_count = 0\<rparr>
   \<and> ToDoListItem_from_doc PNone = Inr \<lparr>it_id = None, it_label = [], it_checked = False\<rparr>
   \<and> (\<forall>doc. \<not> py_truthy doc \<longrightarrow>
         ListSummary_from_doc doc = Inr \<lparr>ls_id = None, ls_name = [], ls_item_count = 0\<rparr>
         \<and> ToDoListItem_from_doc doc
             = Inr \<lparr>it_id = None, it_label = [], it_checked = False\<rparr>)"
  by (simp add: ToDoList_from_doc_None_iff ListSummary_from_doc_def ToDoListItem_from_doc_def)

theorem from_doc_absent_witness:
  "ToDoList_from_doc PNone = Inr None
   \<and> ToDoList_from_doc (PDict [(''_id'', PStr ''L1'')])
       = Inr (Some \<lparr>tl_id = Some ''L1'', tl_name = [], tl_items = []\<rparr>)
   \<and> ListSummary_from_doc (PDict [])
       = Inr \<lparr>ls_id = None, ls_name = [], ls_item_count = 0\<rparr>
   \<and> ToDoListItem_from_doc (PList [])
       = Inr \<lparr>it_id = None, it_label = [], it_checked = False\<rparr>"
  using from_doc_absent
  by (simp add: ToDoList_from_doc_def ListSummary_from_doc_def ToDoListItem_from_doc_def
        dict_get_def id_str_of_def doc_raw_id_def)

lemma falsy_id_summary:
  assumes "map_of d ''_id'' = Some v" and "\<not> py_truthy v"
  shows "ListSummary_from_doc (PDict d)
           = ListSummary_from_doc (PDict (filter (\<lambda>kv. fst kv \<noteq> ''_id'') d))"
proof -
  let ?d' = "filter (\<lambda>kv. fst kv \<noteq> ''_id'') d"
  have g: "dict_get d ''_id'' PNone = v" using assms by (simp add: dict_get_def)
  have raw: "doc_raw_id d = dict_get d ''id'' PNone" using assms g by (simp add: doc_raw_id_def)
  have raw': "doc_raw_id ?d' = dict_get d ''id'' PNone"
    by (simp add: doc_raw_id_def dict_get_filter_same dict_get_filter_other)
  have ne: "d \<noteq> []" using assms by auto
  show ?thesis
  proof (cases "?d' = []")
    case True
    have a: "dict_get d ''id'' PNone = PNone" "dict_get d ''items'' (PList []) = PList []"
        "dict_get d ''name'' (PStr []) = PStr []"
      using True by (simp_all add: dict_get_empty_filter)
    show ?thesis using True ne raw a
      by (simp add: ListSummary_from_doc_def id_str_of_def items_count_def)
  next
    case False
    then show ?thesis using ne raw raw'
      by (simp add: ListSummary_from_doc_def dict_get_filter_other)
  qed
qed

lemma falsy_id_raw:
  "map_of d ''_id'' = Some v \<Longrightarrow> \<not> py_truthy v \<Longrightarrow> doc_raw_id d = dict_get d ''id'' PNone"
  by (simp add: doc_raw_id_def dict_get_def)

lemma summary_id: 
  "ListSummary_from_doc (PDict d) = Inr r \<Longrightarrow> d \<noteq> [] \<Longrightarrow> ls_id r = id_str_of (doc_raw_id d)"
  by (auto simp: ListSummary_from_doc_def Let_def split: sum.splits)

lemma list_id: 
  "ToDoList_from_doc (PDict d) = Inr (Some l) \<Longrightarrow> tl_id l = id_str_of (doc_raw_id d)"
  by (auto simp: ToDoList_from_doc_def Let_def split: sum.splits option.splits if_splits)

lemma item_id_kept:
  "map_of e ''id'' = Some v \<Longrightarrow> v \<noteq> PNone \<Longrightarrow>
   validate_str (dict_get e ''label'' (PStr [])) = Inr l \<Longrightarrow>
   \<exists>it. ToDoListItem_from_doc (PDict e) = Inr it \<and> it_id it = py_str v"
  by (auto simp: ToDoListItem_from_doc_def item_raw_id_def id_str_of_def dict_get_def Let_def)

lemma item_id_fallback:
  "e \<noteq> [] \<Longrightarrow> dict_get e ''id'' PNone = PNone \<Longrightarrow> ToDoListItem_from_doc (PDict e) = Inr it \<Longrightarrow>
   it_id it = id_str_of (dict_get e ''_id'' PNone)"
  by (auto simp: ToDoListItem_from_doc_def item_raw_id_def Let_def split: sum.splits)

lemma truthy_id_raw:
  "map_of d ''_id'' = Some v \<Longrightarrow> py_truthy v \<Longrightarrow> id_str_of (doc_raw_id d) = py_str v"
  by (cases v) (auto simp: doc_raw_id_def dict_get_def id_str_of_def)

lemma summary_returns:
  "d \<noteq> [] \<Longrightarrow> validate_str (dict_get d ''name'' (PStr [])) = Inr n \<Longrightarrow>
   \<exists>r. ListSummary_from_doc (PDict d) = Inr r"
  by (simp add: ListSummary_from_doc_def)

lemma list_returns:
  "d \<noteq> [] \<Longrightarrow> validate_str (dict_get d ''name'' (PStr [])) = Inr n \<Longrightarrow>
   map_of d ''items'' = None \<or> (\<exists>xs. map_of d ''items'' = Some (PList xs)) \<Longrightarrow>
   \<exists>l. ToDoList_from_doc (PDict d) = Inr (Some l)"
  by (auto simp: from_doc_items_list from_doc_items_absent list_of_doc_def)

text \<open>
  C10. \<^verbatim>\<open>ListSummary.from_doc\<close> and \<^verbatim>\<open>ToDoList.from_doc\<close> choose between \<^verbatim>\<open>_id\<close> and
  \<^verbatim>\<open>id\<close> by the truthiness of \<^verbatim>\<open>_id\<close>. A truthy \<^verbatim>\<open>_id\<close> is the id of the result,
  whatever \<^verbatim>\<open>id\<close> holds. A \<^verbatim>\<open>_id\<close> that is present but falsy is passed over as if it
  were absent: the summary is the one of the document without its \<^verbatim>\<open>_id\<close> field, and
  the id of either result is that of the \<^verbatim>\<open>id\<close> field. Both mappers return on a
  document in the persisted layout, so these ids are there. \<^verbatim>\<open>ToDoListItem.from_doc\<close>
  keeps any \<^verbatim>\<open>id\<close> that is not \<open>None\<close>, the empty string included, and reads \<^verbatim>\<open>_id\<close>
  only when \<^verbatim>\<open>id\<close> is \<open>None\<close> or missing.
\<close>

theorem id_fallback:
  "(\<forall>d v. map_of d ''_id'' = Some v \<and> py_truthy v \<longrightarrow>
      (\<forall>r. ListSummary_from_doc (PDict d) = Inr r \<longrightarrow> ls_id r = py_str v)
      \<and> (\<forall>l. ToDoList_from_doc (PDict d) = Inr (Some l) \<longrightarrow> tl_id l = py_str v))
   \<and> (\<forall>d v. map_of d ''_id'' = Some v \<and> \<not> py_truthy v \<longrightarrow>
      ListSummary_from_doc (PDict d)
        = ListSummary_from_doc (PDict (filter (\<lambda>kv. fst kv \<noteq> ''_id'') d))
      \<and> (\<forall>r. ListSummary_from_doc (PDict d) = Inr r \<longrightarrow>
             ls_id r = id_str_of (dict_get d ''id'' PNone))
      \<and> (\<forall>l. ToDoList_from_doc (PDict d) = Inr (Some l) \<longrightarrow>
             tl_id l = id_str_of (dict_get d ''id'' PNone)))
   \<and> (\<forall>d n. d \<noteq> [] \<and> validate_str (dict_get d ''name'' (PStr [])) = Inr n \<longrightarrow>
        (\<exists>r. ListSummary_from_doc (PDict d) = Inr r))
   \<and> (\<forall>d n. d \<noteq> [] \<and> validate_str (dict_get d ''name'' (PStr [])) = Inr n
          \<and> (map_of d ''items'' = None \<or> (\<exists>xs. map_of d ''items'' = Some (PList xs))) \<longrightarrow>
        (\<exists>l. ToDoList_from_doc (PDict d) = Inr (Some l)))
   \<and> (\<forall>e v l. map_of e ''id'' = Some v \<and> v \<noteq> PNone
          \<and> validate_str (dict_get e ''label'' (PStr [])) = Inr l \<longrightarrow>
        (\<exists>it. ToDoListItem_from_doc (PDict e) = Inr it \<and> it_id it = py_str v))
   \<and> (\<forall>e it. e \<noteq> [] \<and> dict_get e ''id'' PNone = PNone
          \<and> ToDoListItem_from_doc (PDict e) = Inr it \<longrightarrow>
        it_id it = id_str_of (dict_get e ''_id'' PNone))"
proof -
  have t: "\<forall>d v. map_of d ''_id'' = Some v \<and> py_truthy v \<longrightarrow>
      (\<forall>r. ListSummary_from_doc (PDict d) = Inr r \<longrightarrow> ls_id r = py_str v)
      \<and> (\<forall>l. ToDoList_from_doc (PDict d) = Inr (Some l) \<longrightarrow> tl_id l = py_str v)"
  proof (intro allI impI)
    fix d v
    assume h: "map_of d ''_id'' = Some v \<and> py_truthy v"
    then have m: "map_of d ''_id'' = Some v" and f: "py_truthy v" by simp_all
    have ne: "d \<noteq> []" using m by auto
    show "(\<forall>r. ListSummary_from_doc (PDict d) = Inr r \<longrightarrow> ls_id r = py_str v)
      \<and> (\<forall>l. ToDoList_from_doc (PDict d) = Inr (Some l) \<longrightarrow> tl_id l = py_str v)"
      using truthy_id_raw[OF m f] summary_id[of d] list_id[of d] ne by auto
  qed
  have a: "\<forall>d v. map_of d ''_id'' = Some v \<and> \<not> py_truthy v \<longrightarrow>
      ListSummary_from_doc (PDict d)
        = ListSummary_from_doc (PDict (filter (\<lambda>kv. fst kv \<noteq> ''_id'') d))
      \<and> (\<forall>r. ListSummary_from_doc (PDict d) = Inr r \<longrightarrow>
             ls_id r = id_str_of (dict_get d ''id'' PNone))
      \<and> (\<forall>l. ToDoList_from_doc (PDict d) = Inr (Some l) \<longrightarrow>
             tl_id l = id_str_of (dict_get d ''id'' PNone))"
  proof (intro allI impI)
    fix d v
    assume h: "map_of d ''_id'' = Some v \<and> \<not> py_truthy v"
    then have m: "map_of d ''_id'' = Some v" and f: "\<not> py_truthy v" by simp_all
    have ne: "d \<noteq> []" using m by auto
    show "ListSummary_from_doc (PDict d)
        = ListSummary_from_doc (PDict (filter (\<lambda>kv. fst kv \<noteq> ''_id'') d))
      \<and> (\<forall>r. ListSummary_from_doc (PDict d) = Inr r \<longrightarrow>
             ls_id r = id_str_of (dict_get d ''id'' PNone))
      \<and> (\<forall>l. ToDoList_from_doc (PDict d) = Inr (Some l) \<longrightarrow>
             tl_id l = id_str_of (dict_get d ''id'' PNone))"
      using falsy_id_summary[OF m f] falsy_id_raw[OF m f] summary_id[of d] list_id[of d] ne
      by auto
  qed
  have s: "\<forall>d n. d \<noteq> [] \<and> validate_str (dict_get d ''name'' (PStr [])) = Inr n \<longrightarrow>
        (\<exists>r. ListSummary_from_doc (PDict d) = Inr r)"
    using summary_returns by blast
  have l: "\<forall>d n. d \<noteq> [] \<and> validate_str (dict_get d ''name'' (PStr [])) = Inr n
          \<and> (map_of d ''items'' = None \<or> (\<exists>xs. map_of d ''items'' = Some (PList xs))) \<longrightarrow>
        (\<exists>l. ToDoList_from_doc (PDict d) = Inr (Some l))"
    using list_returns by blast
  have k: "\<forall>e v l. map_of e ''id'' = Some v \<and> v \<noteq> PNone
          \<and> validate_str (dict_get e ''label'' (PStr [])) = Inr l \<longrightarrow>
        (\<exists>it. ToDoListItem_from_doc (PDict e) = Inr it \<and> it_id it = py_str v)"
    using item_id_kept by blast
  have b: "\<forall>e it. e \<noteq> [] \<and> dict_get e ''id'' PNone = PNone
          \<and> ToDoListItem_from_doc (PDict e) = Inr it \<longrightarrow>
        it_id it = id_str_of (dict_get e ''_id'' PNone)"
    using item_id_fallback by blast
  show ?thesis
    by (intro conjI) (rule t, rule a, rule s, rule l, rule k, rule b)
qed

theorem id_fallback_witness:
  "ListSummary_from_doc
     (PDict [(''_id'', PStr ''L1''), (''id'', PStr ''abc''), (''name'', PStr ''n'')])
     = Inr \<lparr>ls_id = Some ''L1'', ls_name = ''n'', ls_item_count = 0\<rparr>
   \<and> ToDoList_from_doc
     (PDict [(''_id'', PObjectId ''65f0a1b2c3d4e5f6a7b8c9d0''), (''id'', PStr ''abc''),
             (''name'', PStr ''n'')])
     = Inr (Some \<lparr>tl_id = Some ''65f0a1b2c3d4e5f6a7b8c9d0'', tl_name = ''n'', tl_items = []\<rparr>)
   \<and> ListSummary_from_doc
     (PDict [(''_id'', PStr []), (''id'', PStr ''abc''), (''name'', PStr ''n'')])
     = Inr \<lparr>ls_id = Some ''abc'', ls_name = ''n'', ls_item_count = 0\<rparr>
   \<and> ToDoList_from_doc
     (PDict [(''_id'', PInt 0), (''id'', PStr ''abc''), (''name'', PStr ''n'')])
     = Inr (Some \<lparr>tl_id = Some ''abc'', tl_name = ''n'', tl_items = []\<rparr>)
   \<and> ToDoListItem_from_doc
     (PDict [(''id'', PStr []), (''_id'', PStr ''k''), (''label'', PStr ''Milk'')])
     = Inr \<lparr>it_id = Some [], it_label = ''Milk'', it_checked = False\<rparr>
   \<and> ToDoListItem_from_doc
     (PDict [(''id'', PNone), (''_id'', PStr ''k''), (''label'', PStr ''Milk'')])
     = Inr \<lparr>it_id = Some ''k'', it_label = ''Milk'', it_checked = False\<rparr>"
proof -
  let ?d = "[(''_id'', PStr ''L1''), (''id'', PStr ''abc''), (''name'', PStr ''n'')]"
  let ?e = "[(''_id'', PObjectId ''65f0a1b2c3d4e5f6a7b8c9d0''), (''id'', PStr ''abc''),
             (''name'', PStr ''n'')]"
  have hd: "map_of ?d ''_id'' = Some (PStr ''L1'') \<and> py_truthy (PStr ''L1'')" by simp
  have he: "map_of ?e ''_id'' = Some (PObjectId ''65f0a1b2c3d4e5f6a7b8c9d0'')
      \<and> py_truthy (PObjectId ''65f0a1b2c3d4e5f6a7b8c9d0'')" by simp
  note truthy_d = id_fallback [THEN conjunct1, rule_format, OF hd]
  note truthy_e = id_fallback [THEN conjunct1, rule_format, OF he]
  have rd: "ListSummary_from_doc (PDict ?d)
      = Inr \<lparr>ls_id = id_str_of (doc_raw_id ?d), ls_name = ''n'', ls_item_count = 0\<rparr>"
    by (simp add: ListSummary_from_doc_def dict_get_def items_count_def)
  have re: "ToDoList_from_doc (PDict ?e)
      = Inr (Some \<lparr>tl_id = id_str_of (doc_raw_id ?e), tl_name = ''n'', tl_items = []\<rparr>)"
    by (simp add: ToDoList_from_doc_def dict_get_def)
  have id_d: "id_str_of (doc_raw_id ?d) = Some ''L1''"
    using truthy_d [THEN conjunct1, rule_format, OF rd] by simp
  have id_e: "id_str_of (doc_raw_id ?e) = Some ''65f0a1b2c3d4e5f6a7b8c9d0''"
    using truthy_e [THEN conjunct2, rule_format, OF re] by simp
  show ?thesis
    using id_d id_e rd re
    by (simp add: ListSummary_from_doc_def ToDoList_from_doc_def ToDoListItem_from_doc_def
        dict_get_def items_count_def id_str_of_def doc_raw_id_def item_raw_id_def)
qed

section \<open>The store and the identity filters\<close>

lemma find_one_matches: "find_one c q = Some d \<Longrightarrow> matches d q"
  unfolding find_one_def by (induction c) (auto split: if_splits)

lemma fou_none:
  "find_one c q = None \<Longrightarrow> find_one_and_update c q u = (c, Inr None)"
  unfolding find_one_def by (induction c) (auto split: if_splits)

lemma fou_err:
  "find_one c q = Some d \<Longrightarrow> apply_update d q u = Inl e \<Longrightarrow>
   find_one_and_update c q u = (c, Inl e)"
  unfolding find_one_def by (induction c) (auto split: if_splits)

lemma fou_snd:
  "find_one c q = Some d \<Longrightarrow> apply_update d q u = Inr d' \<Longrightarrow>
   snd (find_one_and_update c q u) = Inr (Some d')"
  unfolding find_one_def by (induction c) (auto split: if_splits)

lemma fou_same:
  "find_one c q = Some d \<Longrightarrow> apply_update d q u = Inr d \<Longrightarrow>
   fst (find_one_and_update c q u) = c"
  unfolding find_one_def by (induction c) (auto split: if_splits)

lemma fou_find_after:
  "find_one c q = Some d \<Longrightarrow> find_one c q' = Some d \<Longrightarrow> apply_update d q u = Inr d' \<Longrightarrow>
   matches d' q' \<Longrightarrow> find_one (fst (find_one_and_update c q u)) q' = Some d'"
proof (induction c)
  case Nil
  then show ?case by (simp add: find_one_def)
next
  case (Cons a c)
  show ?case
  proof (cases "matches a q")
    case True
    then have "a = d" using Cons.prems(1) by (simp add: find_one_def)
    then show ?thesis using True Cons.prems by (simp add: find_one_def)
  next
    case False
    then have f1: "find_one c q = Some d" using Cons.prems(1) by (simp add: find_one_def)
    have nm: "\<not> matches a q'"
    proof
      assume m: "matches a q'"
      then have "a = d" using Cons.prems(2) by (simp add: find_one_def)
      then show False using False find_one_matches[OF f1] by simp
    qed
    then have f2: "find_one c q' = Some d" using Cons.prems(2) by (simp add: find_one_def)
    show ?thesis using False nm Cons.IH[OF f1 f2 Cons.prems(3,4)]
      by (simp add: find_one_def)
  qed
qed

lemma apply_update_id:
  "apply_update d q u = Inr d' \<Longrightarrow> map_of d' ''_id'' = map_of d ''_id''"
  by (cases "(d, q, u)" rule: apply_update.cases)
     (auto simp: map_of_dict_set split: option.splits pyval.splits)

lemma get_filter_eq: "get_todo_list_filter Answers x = resolve_identity x"
  by (simp add: get_todo_list_filter_def resolve_identity_def split: sum.splits)

lemma delete_list_filter_eq: "delete_todo_list_filter Answers x = resolve_identity x"
  by (simp add: delete_todo_list_filter_def resolve_identity_def split: sum.splits)

lemma get_todo_list_run_filter:
  "get_todo_list_run first Answers c x
     = map_result (find_one c (ById (get_todo_list_filter first x)))"
  by (cases first)
     (simp_all add: get_todo_list_run_def get_todo_list_filter_def store_call_def
        split: sum.splits)

lemma delete_todo_list_run_filter:
  "delete_todo_list_run first Answers c x
     = deleted (delete_one c (ById (delete_todo_list_filter first x)))"
  by (cases first)
     (simp_all add: delete_todo_list_run_def delete_todo_list_filter_def store_call_def
        split: sum.splits)

lemma get_todo_list_eq:
  "get_todo_list c x = map_result (find_one c (ById (resolve_identity x)))"
  by (simp add: get_todo_list_def get_todo_list_run_filter get_filter_eq)

lemma delete_todo_list_eq:
  "delete_todo_list c x =
     (fst (delete_one c (ById (resolve_identity x))),
      snd (delete_one c (ById (resolve_identity x))) = 1)"
  by (simp add: delete_todo_list_def delete_todo_list_run_filter delete_list_filter_eq
        deleted_def)

lemma delete_item_filter_eq: "delete_item_filter x = resolve_identity x"
  by (simp add: delete_item_filter_def resolve_identity_def split: sum.splits)

lemma create_item_filter_eq: "create_item_filter x = Inr (resolve_identity x)"
  by (cases x)
     (auto simp: create_item_filter_def resolve_identity_def ObjectId_is_valid_def
           split: sum.splits option.splits)

lemma set_checked_state_filter_eq: "set_checked_state_filter x = Inr (resolve_identity x)"
  by (cases x)
     (auto simp: set_checked_state_filter_def resolve_identity_def ObjectId_is_valid_def
           split: sum.splits option.splits)

lemma identity_filters_agree:
  "get_todo_list_filter Answers x = resolve_identity x
   \<and> delete_todo_list_filter Answers x = resolve_identity x
   \<and> create_item_filter x = Inr (resolve_identity x)
   \<and> set_checked_state_filter x = Inr (resolve_identity x)
   \<and> delete_item_filter x = resolve_identity x"
  by (simp add: get_filter_eq delete_list_filter_eq delete_item_filter_eq
        create_item_filter_eq set_checked_state_filter_eq)

text \<open>
  C2. The specification has every operation match the identity as a literal string only
  when the native decode fails. \<^verbatim>\<open>create_item\<close>, \<^verbatim>\<open>set_checked_state\<close> and
  \<^verbatim>\<open>delete_item\<close> do so, and \<^verbatim>\<open>get_todo_list\<close> and \<^verbatim>\<open>delete_todo_list\<close> do so as
  long as the store answers. In these two the handler also catches the exception of the
  store call: when the call in the \<^verbatim>\<open>try\<close> raises for an identity that decodes, the
  operation asks the store again with the identity as a string. That filter is not the
  one of the two-stage resolution, and it matches no list whose key is an
  \<^verbatim>\<open>ObjectId\<close>: \<^verbatim>\<open>get_todo_list\<close> returns \<open>None\<close> for a list that is stored, and
  \<^verbatim>\<open>delete_todo_list\<close> returns false and leaves it there.
\<close>

theorem identity_filter_store_failure:
  "resolve_identity (IdStr ''65f0a1b2c3d4e5f6a7b8c9d0'') = PObjectId ''65f0a1b2c3d4e5f6a7b8c9d0''
   \<and> get_todo_list_filter Raises (IdStr ''65f0a1b2c3d4e5f6a7b8c9d0'')
       = PStr ''65f0a1b2c3d4e5f6a7b8c9d0''
   \<and> delete_todo_list_filter Raises (IdStr ''65f0a1b2c3d4e5f6a7b8c9d0'')
       = PStr ''65f0a1b2c3d4e5f6a7b8c9d0''
   \<and> get_todo_list_run Answers Answers
        [[(''_id'', PObjectId ''65f0a1b2c3d4e5f6a7b8c9d0''), (''name'', PStr ''Groceries''),
          (''items'', PList [])]]
        (IdStr ''65f0a1b2c3d4e5f6a7b8c9d0'')
       = Inr (Some \<lparr>tl_id = Some ''65f0a1b2c3d4e5f6a7b8c9d0'', tl_name = ''Groceries'',
                    tl_items = []\<rparr>)
   \<and> get_todo_list_run Raises Answers
        [[(''_id'', PObjectId ''65f0a1b2c3d4e5f6a7b8c9d0''), (''name'', PStr ''Groceries''),
          (''items'', PList [])]]
        (IdStr ''65f0a1b2c3d4e5f6a7b8c9d0'')
       = Inr None
   \<and> delete_todo_list_run Raises Answers
        [[(''_id'', PObjectId ''65f0a1b2c3d4e5f6a7b8c9d0''), (''name'', PStr ''Groceries''),
          (''items'', PList [])]]
        (IdStr ''65f0a1b2c3d4e5f6a7b8c9d0'')
       = ([[(''_id'', PObjectId ''65f0a1b2c3d4e5f6a7b8c9d0''), (''name'', PStr ''Groceries''),
            (''items'', PList [])]], Inr False)"
  by (simp add: resolve_identity_def get_todo_list_filter_def delete_todo_list_filter_def
        get_todo_list_run_def delete_todo_list_run_def store_call_def deleted_def
        is_hex_digit_def is_space_char_def lower_char_def find_one_def map_result_def
        ToDoList_from_doc_def dict_get_def id_str_of_def doc_raw_id_def)

theorem identity_filter_store_failure_witness:
  "get_todo_list_filter Raises (IdStr ''65f0a1b2c3d4e5f6a7b8c9d0'')
     \<noteq> resolve_identity (IdStr ''65f0a1b2c3d4e5f6a7b8c9d0'')
   \<and> delete_todo_list_filter Raises (IdStr ''65f0a1b2c3d4e5f6a7b8c9d0'')
     \<noteq> resolve_identity (IdStr ''65f0a1b2c3d4e5f6a7b8c9d0'')"
  using identity_filter_store_failure by simp

section \<open>The operations on items\<close>

lemma get_todo_list_found:
  "find_one c (ById (resolve_identity x)) = Some d \<Longrightarrow>
   get_todo_list c x = ToDoList_from_doc (PDict d)"
  by (auto simp: get_todo_list_eq map_result_def dest!: find_one_matches)

lemma get_todo_list_none:
  "find_one c (ById (resolve_identity x)) = None \<Longrightarrow> get_todo_list c x = Inr None"
  by (simp add: get_todo_list_eq map_result_def)

lemma run_update_none:
  "find_one c q = None \<Longrightarrow> run_update c q u = (c, Inr None)"
  by (simp add: run_update_def fou_none map_result_def)

lemma run_update_err:
  "find_one c q = Some d \<Longrightarrow> apply_update d q u = Inl e \<Longrightarrow> run_update c q u = (c, Inl e)"
  by (simp add: run_update_def fou_err)

lemma found_nonempty: "find_one c q = Some d \<Longrightarrow> map_of d ''_id'' \<noteq> None"
  by (drule find_one_matches) (cases q, auto)

lemma run_update_ok:
  assumes "find_one c q = Some d" and "apply_update d q u = Inr d'"
  shows "snd (run_update c q u) = ToDoList_from_doc (PDict d')"
proof -
  have "map_of d' ''_id'' = map_of d ''_id''" using assms(2) by (rule apply_update_id)
  then have "map_of d' ''_id'' \<noteq> None" using found_nonempty[OF assms(1)] by simp
  then have "d' \<noteq> []" by auto
  then show ?thesis using assms by (simp add: run_update_def fou_snd map_result_def)
qed

lemma run_update_get_after:
  assumes "find_one c q = Some d" and "find_one c (ById (resolve_identity x)) = Some d"
    and "apply_update d q u = Inr d'"
  shows "get_todo_list (fst (run_update c q u)) x = snd (run_update c q u)"
    and "find_one (fst (run_update c q u)) (ById (resolve_identity x)) = Some d'"
proof -
  have m: "matches d' (ById (resolve_identity x))"
    using apply_update_id[OF assms(3)] find_one_matches[OF assms(2)] by simp
  show f: "find_one (fst (run_update c q u)) (ById (resolve_identity x)) = Some d'"
    using fou_find_after[OF assms(1,2,3) m] by (simp add: run_update_def)
  show "get_todo_list (fst (run_update c q u)) x = snd (run_update c q u)"
    using run_update_ok[OF assms(1,3)] get_todo_list_found[OF f] by simp
qed

lemma create_item_run:
  "create_item c x label item_id =
     run_update c (ById (resolve_identity x)) (Push (new_item item_id label))"
  by (simp add: create_item_def create_item_filter_eq)

lemma create_item_found:
  assumes f: "find_one c (ById (resolve_identity x)) = Some d"
    and it: "map_of d ''items'' = Some (PList xs)"
  shows "snd (create_item c x label item_id) = list_of_doc d (xs @ [new_item item_id label])"
    and "get_todo_list (fst (create_item c x label item_id)) x
           = snd (create_item c x label item_id)"
    and "find_one (fst (create_item c x label item_id)) (ById (resolve_identity x))
           = Some (dict_set ''items'' (PList (xs @ [new_item item_id label])) d)"
proof -
  let ?q = "ById (resolve_identity x)"
  let ?d' = "dict_set ''items'' (PList (xs @ [new_item item_id label])) d"
  have a: "apply_update d ?q (Push (new_item item_id label)) = Inr ?d'" using it by simp
  show "snd (create_item c x label item_id) = list_of_doc d (xs @ [new_item item_id label])"
    using run_update_ok[OF f a]
    by (simp add: create_item_run from_doc_items_list[of ?d'] map_of_dict_set
          list_of_doc_dict_set)
  show "get_todo_list (fst (create_item c x label item_id)) x
          = snd (create_item c x label item_id)"
    using run_update_get_after(1)[OF f f a] by (simp add: create_item_run)
  show "find_one (fst (create_item c x label item_id)) ?q = Some ?d'"
    using run_update_get_after(2)[OF f f a] by (simp add: create_item_run)
qed

lemma create_item_found_absent:
  assumes f: "find_one c (ById (resolve_identity x)) = Some d"
    and it: "map_of d ''items'' = None"
  shows "snd (create_item c x label item_id) = list_of_doc d [new_item item_id label]"
    and "get_todo_list (fst (create_item c x label item_id)) x
           = snd (create_item c x label item_id)"
proof -
  let ?q = "ById (resolve_identity x)"
  let ?d' = "dict_set ''items'' (PList [new_item item_id label]) d"
  have a: "apply_update d ?q (Push (new_item item_id label)) = Inr ?d'" using it by simp
  show "snd (create_item c x label item_id) = list_of_doc d [new_item item_id label]"
    using run_update_ok[OF f a]
    by (simp add: create_item_run from_doc_items_list[of ?d'] map_of_dict_set
          list_of_doc_dict_set)
  show "get_todo_list (fst (create_item c x label item_id)) x
          = snd (create_item c x label item_id)"
    using run_update_get_after(1)[OF f f a] by (simp add: create_item_run)
qed

lemma create_item_appends_one:
  assumes f: "find_one c (ById (resolve_identity x)) = Some d"
    and it: "map_of d ''items'' = None \<or> (\<exists>xs. map_of d ''items'' = Some (PList xs))"
    and g: "get_todo_list c x = Inr (Some l)"
  shows "snd (create_item c x label item_id)
          = Inr (Some (l\<lparr>tl_items := tl_items l
                           @ [\<lparr>it_id = Some item_id, it_label = label, it_checked = False\<rparr>]\<rparr>))"
    and "get_todo_list (fst (create_item c x label item_id)) x
          = snd (create_item c x label item_id)"
proof -
  have ne: "d \<noteq> []" using found_nonempty[OF f] by auto
  have g': "ToDoList_from_doc (PDict d) = Inr (Some l)" using g get_todo_list_found[OF f] by simp
  have "snd (create_item c x label item_id)
          = Inr (Some (l\<lparr>tl_items := tl_items l
                           @ [\<lparr>it_id = Some item_id, it_label = label, it_checked = False\<rparr>]\<rparr>))
        \<and> get_todo_list (fst (create_item c x label item_id)) x
          = snd (create_item c x label item_id)"
  proof (cases "map_of d ''items''")
    case None
    have "list_of_doc d [] = Inr (Some l)" using from_doc_items_absent[OF None ne] g' by simp
    from list_of_doc_append[OF this, of "[new_item item_id label]", unfolded map_items_new_item]
    show ?thesis using create_item_found_absent[OF f None, of label item_id] by simp
  next
    case (Some v)
    then obtain xs where xs: "map_of d ''items'' = Some (PList xs)" using it by auto
    have "list_of_doc d xs = Inr (Some l)" using from_doc_items_list[OF xs] g' by simp
    from list_of_doc_append[OF this, of "[new_item item_id label]", unfolded map_items_new_item]
    show ?thesis using create_item_found(1,2)[OF f xs, of label item_id] by simp
  qed
  then show "snd (create_item c x label item_id)
          = Inr (Some (l\<lparr>tl_items := tl_items l
                           @ [\<lparr>it_id = Some item_id, it_label = label, it_checked = False\<rparr>]\<rparr>))"
    and "get_todo_list (fst (create_item c x label item_id)) x
          = snd (create_item c x label item_id)"
    by simp_all
qed

text \<open>
  C3. When the identity resolves to a stored list (a document whose \<^verbatim>\<open>items\<close> field is
  an array, or is missing) that \<^verbatim>\<open>get_todo_list\<close> maps to \<open>l\<close>, \<^verbatim>\<open>create_item\<close>
  returns \<open>l\<close> with its items as they were and in their order, followed by one new item
  with the given label, unchecked, whose id is the one just generated; a get that follows
  returns the same list. When the identity resolves to no document it returns \<open>None\<close>
  and leaves the collection as it was.
\<close>

theorem create_item_appends:
  "(\<forall>c x label item_id d l.
      find_one c (ById (resolve_identity x)) = Some d
      \<and> (map_of d ''items'' = None \<or> (\<exists>xs. map_of d ''items'' = Some (PList xs)))
      \<and> get_todo_list c x = Inr (Some l) \<longrightarrow>
        snd (create_item c x label item_id)
          = Inr (Some (l\<lparr>tl_items := tl_items l
                           @ [\<lparr>it_id = Some item_id, it_label = label, it_checked = False\<rparr>]\<rparr>))
        \<and> get_todo_list (fst (create_item c x label item_id)) x
          = snd (create_item c x label item_id))
   \<and> (\<forall>c x label item_id.
        find_one c (ById (resolve_identity x)) = None \<longrightarrow>
          create_item c x label item_id = (c, Inr None))"
  using create_item_appends_one by (simp add: create_item_run run_update_none)

theorem create_item_appends_witness:
  "snd (create_item
          [[(''_id'', PObjectId ''65f0a1b2c3d4e5f6a7b8c9d0''), (''name'', PStr ''Groceries''),
            (''items'', PList [])]]
          (IdStr ''65f0a1b2c3d4e5f6a7b8c9d0'') ''Milk'' ''9f1c2b3a4d5e4f60818293a4b5c6d7e8'')
     = Inr (Some \<lparr>tl_id = Some ''65f0a1b2c3d4e5f6a7b8c9d0'', tl_name = ''Groceries'',
                  tl_items = [\<lparr>it_id = Some ''9f1c2b3a4d5e4f60818293a4b5c6d7e8'',
                               it_label = ''Milk'', it_checked = False\<rparr>]\<rparr>)
   \<and> create_item
          [[(''_id'', PObjectId ''65f0a1b2c3d4e5f6a7b8c9d0''), (''name'', PStr ''Groceries''),
            (''items'', PList [])]]
          (IdStr ''no-such-list'') ''Milk'' ''9f1c2b3a4d5e4f60818293a4b5c6d7e8''
     = ([[(''_id'', PObjectId ''65f0a1b2c3d4e5f6a7b8c9d0''), (''name'', PStr ''Groceries''),
          (''items'', PList [])]], Inr None)"
proof -
  let ?d = "[(''_id'', PObjectId ''65f0a1b2c3d4e5f6a7b8c9d0''), (''name'', PStr ''Groceries''),
            (''items'', PList [])]"
  let ?x = "IdStr ''65f0a1b2c3d4e5f6a7b8c9d0''"
  let ?l = "\<lparr>tl_id = Some ''65f0a1b2c3d4e5f6a7b8c9d0'', tl_name = ''Groceries'', tl_items = []\<rparr>"
  have r: "resolve_identity ?x = PObjectId ''65f0a1b2c3d4e5f6a7b8c9d0''"
    by (simp add: resolve_identity_def is_hex_digit_def is_space_char_def lower_char_def)
  have r': "resolve_identity (IdStr ''no-such-list'') = PStr ''no-such-list''"
    by (simp add: resolve_identity_def)
  have f: "find_one [?d] (ById (resolve_identity ?x)) = Some ?d"
    by (simp add: r find_one_def)
  have n: "find_one [?d] (ById (resolve_identity (IdStr ''no-such-list''))) = None"
    by (simp add: r' find_one_def)
  have i: "map_of ?d ''items'' = None \<or> (\<exists>xs. map_of ?d ''items'' = Some (PList xs))"
    by simp
  have g: "get_todo_list [?d] ?x = Inr (Some ?l)"
    by (simp add: get_todo_list_eq r
          find_one_def map_result_def ToDoList_from_doc_def dict_get_def id_str_of_def
          doc_raw_id_def)
  note found = create_item_appends [THEN conjunct1, rule_format, OF conjI [OF f conjI [OF i g]]]
  note missing = create_item_appends [THEN conjunct2, rule_format, OF n]
  show ?thesis
    using found [of "''Milk''" "''9f1c2b3a4d5e4f60818293a4b5c6d7e8''"]
      missing [of "''Milk''" "''9f1c2b3a4d5e4f60818293a4b5c6d7e8''"]
    by simp
qed

lemma updated_nonempty:
  "find_one c q = Some d \<Longrightarrow> apply_update d q u = Inr d' \<Longrightarrow> d' \<noteq> []"
  using apply_update_id[of d q u d'] found_nonempty[of c q d] by auto

lemma run_update_None_iff:
  "(snd (run_update c q u) = Inr None) = (find_one c q = None)"
proof (cases "find_one c q")
  case None
  then show ?thesis by (simp add: run_update_none)
next
  case (Some d)
  show ?thesis
  proof (cases "apply_update d q u")
    case (Inl e)
    then show ?thesis using Some by (simp add: run_update_err)
  next
    case (Inr d')
    have "py_truthy (PDict d')" using updated_nonempty[OF Some Inr] by simp
    then show ?thesis
      using Some run_update_ok[OF Some Inr] by (simp add: ToDoList_from_doc_None_iff)
  qed
qed

lemma filter_no_match:
  "\<not> list_ex (elem_matches item_id) xs \<Longrightarrow> filter (\<lambda>x. \<not> elem_matches item_id x) xs = xs"
  by (induction xs) auto

lemma pull_no_match:
  "map_of d ''items'' = None
     \<or> (\<exists>xs. map_of d ''items'' = Some (PList xs) \<and> \<not> list_ex (elem_matches item_id) xs) \<Longrightarrow>
   apply_update d q (Pull item_id) = Inr d"
  by (auto simp: filter_no_match dict_set_same)

lemma delete_item_no_match:
  assumes f: "find_one c (ById (resolve_identity x)) = Some d"
    and n: "map_of d ''items'' = None
       \<or> (\<exists>xs. map_of d ''items'' = Some (PList xs) \<and> \<not> list_ex (elem_matches item_id) xs)"
  shows "delete_item c x item_id = (c, get_todo_list c x)" and "get_todo_list c x \<noteq> Inr None"
proof -
  let ?q = "ById (resolve_identity x)"
  have a: "apply_update d ?q (Pull item_id) = Inr d" using n by (rule pull_no_match)
  have "fst (run_update c ?q (Pull item_id)) = c" using fou_same[OF f a] by (simp add: run_update_def)
  moreover have "snd (run_update c ?q (Pull item_id)) = get_todo_list c x"
    using run_update_ok[OF f a] get_todo_list_found[OF f] by simp
  ultimately show "delete_item c x item_id = (c, get_todo_list c x)"
    by (simp add: delete_item_def delete_item_filter_eq prod_eq_iff)
  have "py_truthy (PDict d)" using found_nonempty[OF f] by auto
  then show "get_todo_list c x \<noteq> Inr None"
    using get_todo_list_found[OF f] by (simp add: ToDoList_from_doc_None_iff)
qed

text \<open>
  C4. \<^verbatim>\<open>delete_item\<close> returns \<open>None\<close> exactly when the list identity resolves to no
  stored document. For an existing list (its \<^verbatim>\<open>items\<close> an array, or missing) none of
  whose items the item identity matches, it leaves the collection as it was and returns
  what \<^verbatim>\<open>get_todo_list\<close> returns for it: the same id, name and items, and not \<open>None\<close>.
\<close>

theorem delete_item_not_found_only_for_list:
  "(\<forall>c x item_id.
      (snd (delete_item c x item_id) = Inr None)
        = (find_one c (ById (resolve_identity x)) = None))
   \<and> (\<forall>c x item_id d.
        find_one c (ById (resolve_identity x)) = Some d
        \<and> (map_of d ''items'' = None
            \<or> (\<exists>xs. map_of d ''items'' = Some (PList xs)
                  \<and> \<not> list_ex (elem_matches item_id) xs)) \<longrightarrow>
          delete_item c x item_id = (c, get_todo_list c x)
          \<and> get_todo_list c x \<noteq> Inr None)"
proof -
  have a: "(snd (delete_item c x item_id) = Inr None)
        = (find_one c (ById (resolve_identity x)) = None)" for c x item_id
    by (simp add: delete_item_def delete_item_filter_eq run_update_None_iff)
  have b: "delete_item c x item_id = (c, get_todo_list c x) \<and> get_todo_list c x \<noteq> Inr None"
    if "find_one c (ById (resolve_identity x)) = Some d
        \<and> (map_of d ''items'' = None
            \<or> (\<exists>xs. map_of d ''items'' = Some (PList xs)
                  \<and> \<not> list_ex (elem_matches item_id) xs))" for c x item_id d
    using that delete_item_no_match[of c x d item_id] by simp
  show ?thesis using a b by blast
qed

theorem delete_item_not_found_only_for_list_witness:
  "delete_item
     [[(''_id'', PStr ''L1''), (''name'', PStr ''Groceries''),
       (''items'', PList [PDict [(''id'', PStr ''a1''), (''label'', PStr ''Milk''),
                                 (''checked'', PBool True)]])]]
     (IdStr ''L1'') ''zz''
   = ([[(''_id'', PStr ''L1''), (''name'', PStr ''Groceries''),
        (''items'', PList [PDict [(''id'', PStr ''a1''), (''label'', PStr ''Milk''),
                                  (''checked'', PBool True)]])]],
      Inr (Some \<lparr>tl_id = Some ''L1'', tl_name = ''Groceries'',
                  tl_items = [\<lparr>it_id = Some ''a1'', it_label = ''Milk'', it_checked = True\<rparr>]\<rparr>))
   \<and> snd (delete_item
     [[(''_id'', PStr ''L1''), (''name'', PStr ''Groceries''), (''items'', PList [])]]
     (IdStr ''L2'') ''a1'') = Inr None"
proof -
  let ?it = "PDict [(''id'', PStr ''a1''), (''label'', PStr ''Milk''), (''checked'', PBool True)]"
  let ?d = "[(''_id'', PStr ''L1''), (''name'', PStr ''Groceries''), (''items'', PList [?it])]"
  let ?e = "[(''_id'', PStr ''L1''), (''name'', PStr ''Groceries''), (''items'', PList [])]"
  have r: "resolve_identity (IdStr ''L1'') = PStr ''L1''"
      "resolve_identity (IdStr ''L2'') = PStr ''L2''"
    by (simp_all add: resolve_identity_def)
  have f: "find_one [?d] (ById (resolve_identity (IdStr ''L1''))) = Some ?d"
    by (simp add: r find_one_def)
  have n: "find_one [?e] (ById (resolve_identity (IdStr ''L2''))) = None"
    by (simp add: r find_one_def)
  have i: "map_of ?d ''items'' = None
      \<or> (\<exists>xs. map_of ?d ''items'' = Some (PList xs) \<and> \<not> list_ex (elem_matches ''zz'') xs)"
    by simp
  have g: "get_todo_list [?d] (IdStr ''L1'')
      = Inr (Some \<lparr>tl_id = Some ''L1'', tl_name = ''Groceries'',
                  tl_items = [\<lparr>it_id = Some ''a1'', it_label = ''Milk'', it_checked = True\<rparr>]\<rparr>)"
    by (simp add: get_todo_list_eq r find_one_def map_result_def
          ToDoList_from_doc_def ToDoListItem_from_doc_def dict_get_def id_str_of_def
          doc_raw_id_def item_raw_id_def)
  note same = delete_item_not_found_only_for_list
       [THEN conjunct2, rule_format, OF conjI [OF f i], THEN conjunct1]
  note none = delete_item_not_found_only_for_list
       [THEN conjunct1, rule_format, of "[?e]" "IdStr ''L2''" "''a1''"]
  show ?thesis using same g none n by simp
qed

section \<open>Deleting a list\<close>

lemma find_one_None_iff: "(find_one c q = None) = (\<forall>d \<in> set c. \<not> matches d q)"
  unfolding find_one_def by (induction c) auto

lemma delete_one_snd: "snd (delete_one c q) = (if find_one c q = None then 0 else 1)"
  unfolding find_one_def by (induction c) auto

lemma delete_one_none: "find_one c q = None \<Longrightarrow> fst (delete_one c q) = c"
  unfolding find_one_def by (induction c) (auto split: if_splits)

lemma delete_one_remove1: "find_one c q = Some d \<Longrightarrow> fst (delete_one c q) = remove1 d c"
proof (induction c)
  case Nil
  then show ?case by (simp add: find_one_def)
next
  case (Cons a c)
  show ?case
  proof (cases "matches a q")
    case True
    then show ?thesis using Cons.prems by (simp add: find_one_def)
  next
    case False
    then have f: "find_one c q = Some d" using Cons.prems by (simp add: find_one_def)
    have "a \<noteq> d" using False find_one_matches[OF f] by auto
    then show ?thesis using False Cons.IH[OF f] by simp
  qed
qed

lemma delete_one_length: "length (fst (delete_one c q)) + snd (delete_one c q) = length c"
  by (induction c) auto

lemma delete_one_unique:
  "unique_ids c \<Longrightarrow> find_one (fst (delete_one c (ById v))) (ById v) = None"
proof (induction c)
  case Nil
  then show ?case by (simp add: find_one_def)
next
  case (Cons a c)
  have u: "unique_ids c" using Cons.prems by (simp add: unique_ids_def)
  show ?case
  proof (cases "matches a (ById v)")
    case True
    then have "map_of a ''_id'' = Some v" by simp
    then have "Some v \<notin> set (map (\<lambda>d. map_of d ''_id'') c)"
      using Cons.prems by (simp add: unique_ids_def)
    then have "\<forall>d \<in> set c. map_of d ''_id'' \<noteq> Some v"
      by force
    then show ?thesis using True by (simp add: find_one_None_iff)
  next
    case False
    then show ?thesis using Cons.IH[OF u] by (simp add: find_one_def)
  qed
qed

lemma delete_todo_list_snd:
  "snd (delete_todo_list c x) = (find_one c (ById (resolve_identity x)) \<noteq> None)"
  by (simp add: delete_todo_list_eq delete_one_snd)

lemma delete_todo_list_twice:
  assumes "unique_ids c" and "find_one c (ById (resolve_identity x)) = Some d"
  shows "delete_todo_list c x = (remove1 d c, True)"
    and "delete_todo_list (remove1 d c) x = (remove1 d c, False)"
proof -
  let ?q = "ById (resolve_identity x)"
  show a: "delete_todo_list c x = (remove1 d c, True)"
    using assms(2) delete_one_remove1[OF assms(2)]
    by (simp add: delete_todo_list_eq delete_one_snd)
  have "find_one (remove1 d c) ?q = None"
    using delete_one_unique[OF assms(1), of "resolve_identity x"] delete_one_remove1[OF assms(2)]
    by simp
  then show "delete_todo_list (remove1 d c) x = (remove1 d c, False)"
    by (simp add: delete_todo_list_eq delete_one_snd delete_one_none)
qed

text \<open>
  C6. \<^verbatim>\<open>delete_todo_list\<close> returns true exactly when a document matched the identity,
  and then that one document is gone from the collection; it returns false, a plain
  value, when none matched, and then the collection is as it was. In a collection with
  unique primary keys, deleting an existing list returns true and deleting it again
  returns false.
\<close>

theorem delete_todo_list_true_once:
  "(\<forall>c x. snd (delete_todo_list c x) = (find_one c (ById (resolve_identity x)) \<noteq> None))
   \<and> (\<forall>c x. length (fst (delete_todo_list c x))
              + (if snd (delete_todo_list c x) then 1 else 0) = length c)
   \<and> (\<forall>c x d. find_one c (ById (resolve_identity x)) = Some d \<longrightarrow>
          delete_todo_list c x = (remove1 d c, True))
   \<and> (\<forall>c x. find_one c (ById (resolve_identity x)) = None \<longrightarrow>
          delete_todo_list c x = (c, False))
   \<and> (\<forall>c x d. unique_ids c \<and> find_one c (ById (resolve_identity x)) = Some d \<longrightarrow>
          snd (delete_todo_list c x)
          \<and> \<not> snd (delete_todo_list (fst (delete_todo_list c x)) x)
          \<and> fst (delete_todo_list (fst (delete_todo_list c x)) x) = fst (delete_todo_list c x))"
proof -
  have a: "length (fst (delete_todo_list c x))
              + (if snd (delete_todo_list c x) then 1 else 0) = length c" for c x
    using delete_one_length[of c "ById (resolve_identity x)"]
    by (auto simp: delete_todo_list_eq delete_one_snd split: if_splits)
  have b: "delete_todo_list c x = (remove1 d c, True)"
    if "find_one c (ById (resolve_identity x)) = Some d" for c x d
    using that delete_one_remove1[OF that]
    by (simp add: delete_todo_list_eq delete_one_snd)
  have n: "delete_todo_list c x = (c, False)"
    if "find_one c (ById (resolve_identity x)) = None" for c x
    using that by (simp add: delete_todo_list_eq delete_one_snd delete_one_none)
  have t: "snd (delete_todo_list c x)
          \<and> \<not> snd (delete_todo_list (fst (delete_todo_list c x)) x)
          \<and> fst (delete_todo_list (fst (delete_todo_list c x)) x) = fst (delete_todo_list c x)"
    if "unique_ids c \<and> find_one c (ById (resolve_identity x)) = Some d" for c x d
    using that delete_todo_list_twice[of c x d] by simp
  show ?thesis using a b n t delete_todo_list_snd by blast
qed

theorem delete_todo_list_true_once_witness:
  "delete_todo_list
     [[(''_id'', PObjectId ''65f0a1b2c3d4e5f6a7b8c9d0''), (''name'', PStr ''Groceries''),
       (''items'', PList [])],
      [(''_id'', PStr ''L2''), (''name'', PStr ''Chores''), (''items'', PList [])]]
     (IdStr ''65f0a1b2c3d4e5f6a7b8c9d0'')
     = ([[(''_id'', PStr ''L2''), (''name'', PStr ''Chores''), (''items'', PList [])]], True)
   \<and> delete_todo_list
     [[(''_id'', PStr ''L2''), (''name'', PStr ''Chores''), (''items'', PList [])]]
     (IdStr ''65f0a1b2c3d4e5f6a7b8c9d0'')
     = ([[(''_id'', PStr ''L2''), (''name'', PStr ''Chores''), (''items'', PList [])]], False)"
proof -
  let ?d = "[(''_id'', PObjectId ''65f0a1b2c3d4e5f6a7b8c9d0''), (''name'', PStr ''Groceries''),
       (''items'', PList [])]"
  let ?e = "[(''_id'', PStr ''L2''), (''name'', PStr ''Chores''), (''items'', PList [])]"
  let ?x = "IdStr ''65f0a1b2c3d4e5f6a7b8c9d0''"
  have r: "resolve_identity ?x = PObjectId ''65f0a1b2c3d4e5f6a7b8c9d0''"
    by (simp add: resolve_identity_def is_hex_digit_def is_space_char_def lower_char_def)
  have u: "unique_ids [?d, ?e]" by (simp add: unique_ids_def)
  have f: "find_one [?d, ?e] (ById (resolve_identity ?x)) = Some ?d"
    by (simp add: r find_one_def)
  note first = delete_todo_list_true_once [THEN conjunct2, THEN conjunct2, THEN conjunct1,
      rule_format, OF f]
  note twice = delete_todo_list_true_once [THEN conjunct2, THEN conjunct2, THEN conjunct2,
      THEN conjunct2, rule_format, OF conjI [OF u f]]
  show ?thesis using first twice by (simp add: prod_eq_iff)
qed

section \<open>Checking an item\<close>










lemma check_first_ids: "map it_id (check_first item_id b its) = map it_id its"
  by (induction its) auto







section \<open>The ids of the items\<close>















end
